theory Spec2Isabelle
  imports Main "HOL-Library.Word"
begin

unbundle bit_operations_syntax

section \<open>Go library helpers used by the control plane\<close>

text \<open>
  Go strings are byte sequences; they are modelled as \<open>string\<close> (a \<open>char list\<close>), and
  \<open>len\<close> is \<open>length\<close>. Go's \<open>int\<close> values that are only compared and printed are
  modelled as \<open>int\<close>.
\<close>

text \<open>\<open>strconv.Itoa\<close> / \<open>fmt.Sprintf("%d", n)\<close>: decimal digits, most significant first.\<close>

fun itoa_nat :: "nat \<Rightarrow> string" where
  "itoa_nat n =
     (if n < 10 then [char_of (48 + n)]
      else itoa_nat (n div 10) @ [char_of (48 + n mod 10)])"

declare itoa_nat.simps [simp del]

definition Sprintf_d :: "int \<Rightarrow> string" where
  "Sprintf_d i = (if i < 0 then CHR ''-'' # itoa_nat (nat (- i)) else itoa_nat (nat i))"

text \<open>\<open>strings.HasSuffix\<close> and \<open>strings.TrimSuffix\<close>: at most one copy of the suffix is removed.\<close>

definition HasSuffix :: "string \<Rightarrow> string \<Rightarrow> bool" where
  "HasSuffix s suffix =
     (length suffix \<le> length s \<and> drop (length s - length suffix) s = suffix)"

definition TrimSuffix :: "string \<Rightarrow> string \<Rightarrow> string" where
  "TrimSuffix s suffix =
     (if HasSuffix s suffix then take (length s - length suffix) s else s)"

text \<open>\<open>strings.Contains\<close>: the substring occurs at some offset.\<close>

fun Contains_str :: "string \<Rightarrow> string \<Rightarrow> bool" where
  "Contains_str [] sub = (sub = [])"
| "Contains_str (c # cs) sub = (take (length sub) (c # cs) = sub \<or> Contains_str cs sub)"

text \<open>\<open>strings.Join\<close>: the separator stands between consecutive elements only.\<close>

fun Join :: "string list \<Rightarrow> string \<Rightarrow> string" where
  "Join [] sep = []"
| "Join [x] sep = x"
| "Join (x # y # ys) sep = x @ sep @ Join (y # ys) sep"

section \<open>Switch topology manager: flows\<close>

text \<open>The \<open>Flow\<close> struct of package \<open>network\<close>.\<close>

record Flow =
  Priority :: int
  Match :: string
  Actions :: string
  Table :: int
  IdleAge :: int
  HardAge :: int
  Cookie :: string
  PacketCount :: int
  ByteCount :: int

text \<open>
  \<open>buildFlowSpec\<close>: the string is built by four guarded appends, then one trailing comma
  is trimmed.
\<close>

definition buildFlowSpec :: "Flow \<Rightarrow> string" where
  "buildFlowSpec flow =
     (let spec0 = [];
          spec1 = (if Table flow > 0
                   then spec0 @ ''table='' @ Sprintf_d (Table flow) @ '',''
                   else spec0);
          spec2 = (if Priority flow > 0
                   then spec1 @ ''priority='' @ Sprintf_d (Priority flow) @ '',''
                   else spec1);
          spec3 = (if Match flow \<noteq> [] then spec2 @ Match flow @ '','' else spec2);
          spec4 = (if Actions flow \<noteq> [] then spec3 @ ''actions='' @ Actions flow else spec3)
      in TrimSuffix spec4 '','')"

text \<open>
  The wire format as the specification words it: the fields that are present, in the
  order table, priority, match, actions, joined by commas. A numeric field is present
  when it is greater than zero, a string field when it is not empty.
\<close>

definition flow_fields :: "Flow \<Rightarrow> string list" where
  "flow_fields flow =
     [if Table flow > 0 then ''table='' @ Sprintf_d (Table flow) else [],
      if Priority flow > 0 then ''priority='' @ Sprintf_d (Priority flow) else [],
      Match flow,
      if Actions flow \<noteq> [] then ''actions='' @ Actions flow else []]"

definition wire_of_fields :: "Flow \<Rightarrow> string" where
  "wire_of_fields flow = Join (filter (\<lambda>s. s \<noteq> []) (flow_fields flow)) '',''"

section \<open>Switch topology manager: bridge names\<close>

datatype name_error = NameEmpty | NameTooLong | NameBadChars

text \<open>The character class of the regular expression \<open>^[a-zA-Z0-9_-]+$\<close>.\<close>

definition validNameChar :: "char \<Rightarrow> bool" where
  "validNameChar c =
     (let n = (of_char c :: nat)
      in (97 \<le> n \<and> n \<le> 122) \<or> (65 \<le> n \<and> n \<le> 90) \<or> (48 \<le> n \<and> n \<le> 57)
         \<or> c = CHR ''_'' \<or> c = CHR ''-'')"

text \<open>\<open>validateBridgeName\<close>: \<open>None\<close> is Go's \<open>nil\<close> error.\<close>

definition validateBridgeName :: "string \<Rightarrow> name_error option" where
  "validateBridgeName name =
     (if length name = 0 then Some NameEmpty
      else if length name > 15 then Some NameTooLong
      else if \<not> list_all validNameChar name then Some NameBadChars
      else None)"

text \<open>
  The bridge name of a VPC, \<open>fmt.Sprintf("gcp-vpc-%s", vpc.ID[:8])\<close>. Slicing a string
  shorter than 8 bytes panics in Go; that is \<open>None\<close> here.
\<close>

definition vpcBridgeName :: "string \<Rightarrow> string option" where
  "vpcBridgeName vpc_id =
     (if length vpc_id < 8 then None else Some (''gcp-vpc-'' @ take 8 vpc_id))"

section \<open>Addresses and CIDR blocks (Go package net)\<close>

text \<open>
  An address is 4 or 16 bytes, read here as a big-endian 32-bit or 128-bit word.
  \<open>netip.ParseAddr\<close> is library code outside the repository; the functions below take
  it as the parameter \<open>parseAddr\<close> (\<open>None\<close> when it fails or the address carries a zone,
  \<open>IP4\<close> for a dotted-quad address, \<open>IP6\<close> for every other one).
\<close>

datatype ip = IP4 "32 word" | IP6 "128 word"

type_synonym addr_parser = "string \<Rightarrow> ip option"

text \<open>\<open>net.IPNet\<close>: the network address and the number of leading ones of the mask.\<close>

record IPNet =
  IP :: ip
  Ones :: nat

definition BitLen :: "ip \<Rightarrow> nat" where
  "BitLen a = (case a of IP4 _ \<Rightarrow> 32 | IP6 _ \<Rightarrow> 128)"

text \<open>\<open>net.CIDRMask(n, bits)\<close>: the top \<open>n\<close> bits set.\<close>

definition CIDRMask32 :: "nat \<Rightarrow> 32 word" where
  "CIDRMask32 n = NOT (mask (32 - n))"

definition CIDRMask128 :: "nat \<Rightarrow> 128 word" where
  "CIDRMask128 n = NOT (mask (128 - n))"

text \<open>\<open>IP.Mask\<close> with a mask of the address's own length.\<close>

definition MaskIP :: "ip \<Rightarrow> nat \<Rightarrow> ip" where
  "MaskIP a n =
     (case a of IP4 x \<Rightarrow> IP4 (x AND CIDRMask32 n) | IP6 x \<Rightarrow> IP6 (x AND CIDRMask128 n))"

definition isDigit :: "char \<Rightarrow> bool" where
  "isDigit c = (48 \<le> (of_char c :: nat) \<and> (of_char c :: nat) \<le> 57)"

definition decimal_value :: "string \<Rightarrow> nat" where
  "decimal_value s = foldl (\<lambda>n c. 10 * n + (of_char c - 48)) 0 s"

text \<open>
  \<open>net.ParseCIDR\<close>: the text is split at the first slash; the prefix length must be a
  non-empty run of decimal digits with a value of at most the address's bit length
  (\<open>dtoi\<close> gives up at values from \<open>0xFFFFFF\<close>, which are above every bit length
  anyway); the network address is the address under the mask.
\<close>

definition ParseCIDR :: "addr_parser \<Rightarrow> string \<Rightarrow> IPNet option" where
  "ParseCIDR parseAddr s =
     (if CHR ''/'' \<notin> set s then None
      else
        let addr = takeWhile (\<lambda>c. c \<noteq> CHR ''/'') s;
            msk = tl (dropWhile (\<lambda>c. c \<noteq> CHR ''/'') s)
        in case parseAddr addr of
             None \<Rightarrow> None
           | Some ipAddr \<Rightarrow>
               if msk = [] \<or> \<not> list_all isDigit msk then None
               else
                 let n = decimal_value msk
                 in if n > BitLen ipAddr then None
                    else Some \<lparr>IP = MaskIP ipAddr n, Ones = n\<rparr>)"

text \<open>
  \<open>IP.To4\<close>: a 4-byte address as it is, a 16-byte address when its first ten bytes are
  zero and the next two are \<open>0xff\<close>.
\<close>

definition To4 :: "ip \<Rightarrow> 32 word option" where
  "To4 a =
     (case a of
        IP4 x \<Rightarrow> Some x
      | IP6 x \<Rightarrow> if drop_bit 32 x = 0xFFFF then Some (ucast x) else None)"

text \<open>
  \<open>IPNet.Contains\<close>, with \<open>networkNumberAndMask\<close> written out: both sides are reduced
  with \<open>To4\<close> where possible, addresses of different lengths never match, and bytes
  are compared under the mask.
\<close>

definition Contains :: "IPNet \<Rightarrow> ip \<Rightarrow> bool" where
  "Contains n a =
     (case IP n of
        IP4 nn \<Rightarrow>
          (case To4 a of
             Some x \<Rightarrow> nn AND CIDRMask32 (Ones n) = x AND CIDRMask32 (Ones n)
           | None \<Rightarrow> False)
      | IP6 nn \<Rightarrow>
          (case To4 (IP6 nn) of
             Some n4 \<Rightarrow>
               (case To4 a of
                  Some x \<Rightarrow> n4 AND ucast (CIDRMask128 (Ones n)) = x AND ucast (CIDRMask128 (Ones n))
                | None \<Rightarrow> False)
           | None \<Rightarrow>
               (case To4 a of
                  Some x \<Rightarrow> False
                | None \<Rightarrow>
                    (case a of
                       IP6 y \<Rightarrow> nn AND CIDRMask128 (Ones n) = y AND CIDRMask128 (Ones n)
                     | IP4 y \<Rightarrow> False))))"

text \<open>
  The dotted-quad part of \<open>netip.ParseAddr\<close>, for the concrete instances below: four
  fields of one to three digits, no leading zero, each at most 255.
\<close>

fun splitOn :: "char \<Rightarrow> string \<Rightarrow> string list" where
  "splitOn sep [] = [[]]"
| "splitOn sep (c # cs) =
     (if c = sep then [] # splitOn sep cs
      else (case splitOn sep cs of [] \<Rightarrow> [[c]] | f # fs \<Rightarrow> (c # f) # fs))"

definition parseOctet :: "string \<Rightarrow> nat option" where
  "parseOctet f =
     (if f = [] \<or> length f > 3 \<or> \<not> list_all isDigit f
         \<or> (length f > 1 \<and> hd f = CHR ''0'') \<or> decimal_value f > 255
      then None else Some (decimal_value f))"

definition parseAddr4 :: addr_parser where
  "parseAddr4 s =
     (case map parseOctet (splitOn (CHR ''.'') s) of
        [Some a, Some b, Some c, Some d] \<Rightarrow>
          Some (IP4 (word_of_nat (((a * 256 + b) * 256 + c) * 256 + d)))
      | _ \<Rightarrow> None)"

section \<open>VPC service: CIDR validation\<close>

datatype cidr_error = CIDRInvalidFormat | CIDRNotPrivate | CIDRBadPrefix

text \<open>
  The three literals of \<open>privateRanges\<close>, \<open>10.0.0.0/8\<close>, \<open>172.16.0.0/12\<close> and
  \<open>192.168.0.0/16\<close>, as \<open>net.ParseCIDR\<close> reads them.
\<close>

definition privateRanges :: "IPNet list" where
  "privateRanges =
     [\<lparr>IP = IP4 0x0A000000, Ones = 8\<rparr>,
      \<lparr>IP = IP4 0xAC100000, Ones = 12\<rparr>,
      \<lparr>IP = IP4 0xC0A80000, Ones = 16\<rparr>]"

text \<open>
  \<open>validateCIDRBlock\<close>: \<open>None\<close> is Go's \<open>nil\<close> error. The loop over the private ranges
  stops at the first one that contains the network address.
\<close>

definition validateCIDRBlock :: "addr_parser \<Rightarrow> string \<Rightarrow> cidr_error option" where
  "validateCIDRBlock parseAddr cidr =
     (case ParseCIDR parseAddr cidr of
        None \<Rightarrow> Some CIDRInvalidFormat
      | Some ipNet \<Rightarrow>
          if \<not> list_ex (\<lambda>privateNet. Contains privateNet (IP ipNet)) privateRanges
          then Some CIDRNotPrivate
          else if Ones ipNet < 16 \<or> Ones ipNet > 28 then Some CIDRBadPrefix
          else None)"

text \<open>
  The specification's wording of a valid VPC block: it parses, every address of the
  block lies in one and the same private range, and the prefix length is between 16 and
  28.
\<close>

definition in_block :: "IPNet \<Rightarrow> ip \<Rightarrow> bool" where
  "in_block n a =
     (case (IP n, a) of
        (IP4 nn, IP4 x) \<Rightarrow> x AND CIDRMask32 (Ones n) = nn
      | (IP6 nn, IP6 x) \<Rightarrow> x AND CIDRMask128 (Ones n) = nn
      | _ \<Rightarrow> False)"

definition within_private :: "IPNet \<Rightarrow> bool" where
  "within_private n =
     (\<exists>r \<in> set privateRanges. \<forall>a. in_block n a \<longrightarrow> Contains r a)"

definition spec_valid_cidr :: "addr_parser \<Rightarrow> string \<Rightarrow> bool" where
  "spec_valid_cidr parseAddr cidr =
     (\<exists>n. ParseCIDR parseAddr cidr = Some n \<and> within_private n
          \<and> 16 \<le> Ones n \<and> Ones n \<le> 28)"

section \<open>External commands and the switch\<close>

text \<open>
  \<open>cmd.Run()\<close> returns \<open>nil\<close>, an \<open>*exec.ExitError\<close> (the process exited with a status
  other than zero, or a signal ended it, as the timeout's \<open>Process.Kill\<close> does), or another
  error (the process could not be started). \<open>None\<close> is \<open>nil\<close>.
\<close>

datatype run_error = ExitError nat | Killed string | OtherError string

text \<open>The type assertion \<open>err.(*exec.ExitError)\<close> followed by \<open>ExitCode()\<close>.\<close>

definition ExitCode :: "run_error \<Rightarrow> int option" where
  "ExitCode e =
     (case e of ExitError n \<Rightarrow> Some (int n) | Killed sig \<Rightarrow> Some (- 1) | OtherError msg \<Rightarrow> None)"

text \<open>
  \<open>err.Error()\<close>: an \<open>ExitError\<close> prints its process state, \<open>exit status N\<close> or
  \<open>signal: NAME\<close>. What the process wrote to standard error is not part of it.
\<close>

definition Error_text :: "run_error \<Rightarrow> string" where
  "Error_text e =
     (case e of
        ExitError n \<Rightarrow> ''exit status '' @ itoa_nat n
      | Killed sig \<Rightarrow> ''signal: '' @ sig
      | OtherError msg \<Rightarrow> msg)"

text \<open>The command lines the manager builds with \<open>exec.Command\<close>.\<close>

datatype command =
    CmdBrExists string
  | CmdAddBr string
  | CmdDelBr string
  | CmdLinkSetUp string
  | CmdAddrAdd ip nat string
  | CmdSetBridge string string string
  | CmdAddPort string string bool
  | CmdDelPort string string

text \<open>
  The switch as the tools see it: the bridges by name, each with its ports (a port is
  internal or not), its link state, its addresses and its options.
\<close>

record bridge_state =
  br_ports :: "(string \<times> bool) list"
  br_up :: bool
  br_addrs :: "(ip \<times> nat) list"
  br_options :: "(string \<times> string) list"

type_synonym switch_state = "(string \<times> bridge_state) list"

definition new_bridge :: bridge_state where
  "new_bridge = \<lparr>br_ports = [], br_up = False, br_addrs = [], br_options = []\<rparr>"

definition has_bridge :: "switch_state \<Rightarrow> string \<Rightarrow> bool" where
  "has_bridge sw name = (map_of sw name \<noteq> None)"

definition remove_bridge :: "switch_state \<Rightarrow> string \<Rightarrow> switch_state" where
  "remove_bridge sw name = filter (\<lambda>(n, b). n \<noteq> name) sw"

definition change_bridge ::
  "switch_state \<Rightarrow> string \<Rightarrow> (bridge_state \<Rightarrow> bridge_state) \<Rightarrow> switch_state" where
  "change_bridge sw name f = map (\<lambda>(n, b). if n = name then (n, f b) else (n, b)) sw"

definition set_option :: "(string \<times> string) list \<Rightarrow> string \<Rightarrow> string \<Rightarrow> (string \<times> string) list" where
  "set_option opts k v = filter (\<lambda>(k', v'). k' \<noteq> k) opts @ [(k, v)]"

definition port_known :: "switch_state \<Rightarrow> string \<Rightarrow> bool" where
  "port_known sw port = list_ex (\<lambda>(n, b). port \<in> fst ` set (br_ports b)) sw"

text \<open>
  The tools when nothing goes wrong, after their manuals: \<open>ovs-vsctl br-exists\<close> exits
  with 0 for a bridge that exists and with 2 for one that does not; the other commands
  exit with a status other than zero, changing nothing, when the bridge or port they
  name is missing (or, for the adding commands, already there). \<open>del-br\<close> removes the
  bridge together with its ports.
\<close>

definition tool :: "command \<Rightarrow> switch_state \<Rightarrow> run_error option \<times> switch_state" where
  "tool c sw =
     (case c of
        CmdBrExists name \<Rightarrow>
          (if has_bridge sw name then (None, sw) else (Some (ExitError 2), sw))
      | CmdAddBr name \<Rightarrow>
          (if has_bridge sw name then (Some (ExitError 1), sw)
           else (None, sw @ [(name, new_bridge)]))
      | CmdDelBr name \<Rightarrow>
          (if has_bridge sw name then (None, remove_bridge sw name)
           else (Some (ExitError 1), sw))
      | CmdLinkSetUp name \<Rightarrow>
          (if has_bridge sw name
           then (None, change_bridge sw name (\<lambda>b. b\<lparr>br_up := True\<rparr>))
           else (Some (ExitError 1), sw))
      | CmdAddrAdd a plen name \<Rightarrow>
          (case map_of sw name of
             None \<Rightarrow> (Some (ExitError 1), sw)
           | Some b \<Rightarrow>
               if (a, plen) \<in> set (br_addrs b) then (Some (ExitError 2), sw)
               else (None, change_bridge sw name (\<lambda>b. b\<lparr>br_addrs := br_addrs b @ [(a, plen)]\<rparr>)))
      | CmdSetBridge name k v \<Rightarrow>
          (if has_bridge sw name
           then (None, change_bridge sw name (\<lambda>b. b\<lparr>br_options := set_option (br_options b) k v\<rparr>))
           else (Some (ExitError 1), sw))
      | CmdAddPort name port internal \<Rightarrow>
          (if has_bridge sw name \<and> \<not> port_known sw port
           then (None, change_bridge sw name (\<lambda>b. b\<lparr>br_ports := br_ports b @ [(port, internal)]\<rparr>))
           else (Some (ExitError 1), sw))
      | CmdDelPort name port \<Rightarrow>
          (case map_of sw name of
             None \<Rightarrow> (Some (ExitError 1), sw)
           | Some b \<Rightarrow>
               if port \<in> fst ` set (br_ports b)
               then (None, change_bridge sw name
                             (\<lambda>b. b\<lparr>br_ports := filter (\<lambda>(p, i). p \<noteq> port) (br_ports b)\<rparr>))
               else (Some (ExitError 1), sw)))"

section \<open>The persisted records\<close>

text \<open>\<open>models.VPC\<close>; \<open>*string\<close> is an option, \<open>time.Time\<close> a number.\<close>

record VPC =
  ID :: string
  Name :: string
  CIDRBlock :: string
  Description :: "string option"
  UserID :: string
  CreatedAt :: nat
  UpdatedAt :: nat

text \<open>\<open>models.Subnet\<close>, the rows of the table \<open>subnets\<close>.\<close>

record Subnet =
  Subnet_ID :: string
  Subnet_VPCID :: string
  Subnet_Name :: string
  Subnet_CIDRBlock :: string
  Subnet_AvailabilityZone :: string
  Subnet_IsPublic :: bool
  Subnet_CreatedAt :: nat
  Subnet_UpdatedAt :: nat

section \<open>The world the service acts on\<close>

text \<open>
  The tables \<open>vpcs\<close> and \<open>subnets\<close>, the switch, and what will go wrong: each statement
  sent to the store takes the next entry of \<open>db_faults\<close> (\<open>True\<close>: the statement fails
  and changes nothing), each external command the next entry of \<open>tool_faults\<close>
  (\<open>Some e\<close>: the command fails with \<open>e\<close> and changes nothing). An empty schedule means
  that nothing goes wrong any more.
\<close>

record world =
  vpcs :: "VPC list"
  subnets :: "Subnet list"
  switch :: switch_state
  db_faults :: "bool list"
  tool_faults :: "run_error option list"

text \<open>\<open>runCommand\<close>: the command is run under the timeout and its error returned.\<close>

definition runCommand :: "command \<Rightarrow> world \<Rightarrow> run_error option \<times> world" where
  "runCommand c w =
     (case tool_faults w of
        Some e # fs \<Rightarrow> (Some e, w\<lparr>tool_faults := fs\<rparr>)
      | None # fs \<Rightarrow>
          (let (r, sw) = tool c (switch w) in (r, w\<lparr>switch := sw, tool_faults := fs\<rparr>))
      | [] \<Rightarrow> (let (r, sw) = tool c (switch w) in (r, w\<lparr>switch := sw\<rparr>)))"

definition db_call :: "world \<Rightarrow> bool \<times> world" where
  "db_call w =
     (case db_faults w of [] \<Rightarrow> (False, w) | f # fs \<Rightarrow> (f, w\<lparr>db_faults := fs\<rparr>))"

section \<open>Switch topology manager: bridges and ports\<close>

datatype ovs_error =
    InvalidBridgeName name_error
  | ExistenceCheckFailed run_error
  | BridgeAlreadyExists string
  | InvalidCIDR
  | CreateBridgeFailed run_error
  | BringUpFailed run_error
  | DeleteBridgeFailed run_error
  | BridgeDoesNotExist string
  | PatchPortUnsupported
  | AddPortFailed string string run_error
  | DeletePortFailed string string run_error

text \<open>\<open>BridgeExists\<close>.\<close>

definition BridgeExists :: "string \<Rightarrow> world \<Rightarrow> (ovs_error + bool) \<times> world" where
  "BridgeExists name w =
     (case runCommand (CmdBrExists name) w of
        (None, w1) \<Rightarrow> (Inr True, w1)
      | (Some err, w1) \<Rightarrow>
          if ExitCode err = Some 2 then (Inr False, w1)
          else (Inl (ExistenceCheckFailed err), w1))"

text \<open>\<open>DeleteBridge\<close>.\<close>

definition DeleteBridge :: "string \<Rightarrow> world \<Rightarrow> (ovs_error + unit) \<times> world" where
  "DeleteBridge name w =
     (case BridgeExists name w of
        (Inl err, w1) \<Rightarrow> (Inl err, w1)
      | (Inr False, w1) \<Rightarrow> (Inr (), w1)
      | (Inr True, w1) \<Rightarrow>
          (case runCommand (CmdDelBr name) w1 of
             (Some err, w2) \<Rightarrow> (Inl (DeleteBridgeFailed err), w2)
           | (None, w2) \<Rightarrow> (Inr (), w2)))"

text \<open>\<open>getFirstIP\<close>: the network address plus one, the carry running through the bytes.\<close>

definition getFirstIP :: "IPNet \<Rightarrow> ip" where
  "getFirstIP ipNet =
     (case MaskIP (IP ipNet) (Ones ipNet) of IP4 x \<Rightarrow> IP4 (x + 1) | IP6 x \<Rightarrow> IP6 (x + 1))"

definition getPrefixLength :: "IPNet \<Rightarrow> nat" where
  "getPrefixLength ipNet = Ones ipNet"

definition bridgeOptions :: "(string \<times> string) list" where
  "bridgeOptions =
     [(''stp_enable'', ''false''),
      (''mcast_snooping'', ''false''),
      (''rstp_enable'', ''false''),
      (''protocols'', ''OpenFlow13''),
      (''fail_mode'', ''secure''),
      (''other_config:forward-bpdu'', ''false'')]"

text \<open>
  The loop over \<open>bridgeOptions\<close>: a failed \<open>ovs-vsctl set\<close> is only a warning. (Go
  visits the keys of a map in no fixed order; they are taken in the order written.)
\<close>

fun setBridgeOptions :: "string \<Rightarrow> (string \<times> string) list \<Rightarrow> world \<Rightarrow> world" where
  "setBridgeOptions name [] w = w"
| "setBridgeOptions name ((k, v) # kvs) w =
     setBridgeOptions name kvs (snd (runCommand (CmdSetBridge name k v) w))"

text \<open>\<open>CreateBridge\<close>.\<close>

definition CreateBridge ::
  "addr_parser \<Rightarrow> string \<Rightarrow> string \<Rightarrow> world \<Rightarrow> (ovs_error + unit) \<times> world" where
  "CreateBridge parseAddr name cidr w =
     (case validateBridgeName name of
        Some err \<Rightarrow> (Inl (InvalidBridgeName err), w)
      | None \<Rightarrow>
          (case BridgeExists name w of
             (Inl err, w1) \<Rightarrow> (Inl err, w1)
           | (Inr True, w1) \<Rightarrow> (Inl (BridgeAlreadyExists name), w1)
           | (Inr False, w1) \<Rightarrow>
               (case ParseCIDR parseAddr cidr of
                  None \<Rightarrow> (Inl InvalidCIDR, w1)
                | Some ipNet \<Rightarrow>
                    (case runCommand (CmdAddBr name) w1 of
                       (Some err, w2) \<Rightarrow> (Inl (CreateBridgeFailed err), w2)
                     | (None, w2) \<Rightarrow>
                         (case runCommand (CmdLinkSetUp name) w2 of
                            (Some err, w3) \<Rightarrow>
                              (Inl (BringUpFailed err), snd (DeleteBridge name w3))
                          | (None, w3) \<Rightarrow>
                              (let w4 = snd (runCommand
                                       (CmdAddrAdd (getFirstIP ipNet) (getPrefixLength ipNet) name) w3)
                               in (Inr (), setBridgeOptions name bridgeOptions w4)))))))"

text \<open>\<open>AddPort\<close>: the port types \<open>veth\<close> and any other run the plain command.\<close>

definition AddPort ::
  "string \<Rightarrow> string \<Rightarrow> string \<Rightarrow> world \<Rightarrow> (ovs_error + unit) \<times> world" where
  "AddPort bridgeName portName portType w =
     (case BridgeExists bridgeName w of
        (Inl err, w1) \<Rightarrow> (Inl err, w1)
      | (Inr False, w1) \<Rightarrow> (Inl (BridgeDoesNotExist bridgeName), w1)
      | (Inr True, w1) \<Rightarrow>
          if portType = ''patch'' then (Inl PatchPortUnsupported, w1)
          else
            (case runCommand (CmdAddPort bridgeName portName (portType = ''internal'')) w1 of
               (Some err, w2) \<Rightarrow> (Inl (AddPortFailed portName bridgeName err), w2)
             | (None, w2) \<Rightarrow> (Inr (), w2)))"

text \<open>
  \<open>DeletePort\<close>: a failed \<open>del-port\<close> counts as success when the text of the error
  contains \<open>no port named\<close>.
\<close>

definition DeletePort ::
  "string \<Rightarrow> string \<Rightarrow> world \<Rightarrow> (ovs_error + unit) \<times> world" where
  "DeletePort bridgeName portName w =
     (case runCommand (CmdDelPort bridgeName portName) w of
        (Some err, w1) \<Rightarrow>
          if Contains_str (Error_text err) ''no port named'' then (Inr (), w1)
          else (Inl (DeletePortFailed portName bridgeName err), w1)
      | (None, w1) \<Rightarrow> (Inr (), w1))"

section \<open>VPC repository\<close>

text \<open>
  The table \<open>vpcs\<close> is the list of its rows in insertion order; \<open>id\<close> is its primary
  key, and \<open>subnets.vpc_id\<close> references it with \<open>ON DELETE CASCADE\<close> (the schema of the
  repository's design documents). A query for one row takes the first that matches.
\<close>

datatype db_error = DBFailure | DuplicateKey | StatementRejected | NoRowsAffected

text \<open>\<open>Create\<close>: the \<open>INSERT\<close>.\<close>

definition Create :: "VPC \<Rightarrow> world \<Rightarrow> (db_error + unit) \<times> world" where
  "Create vpc w =
     (let (failed, w1) = db_call w
      in if failed then (Inl DBFailure, w1)
         else if ID vpc \<in> ID ` set (vpcs w1) then (Inl DuplicateKey, w1)
         else (Inr (), w1\<lparr>vpcs := vpcs w1 @ [vpc]\<rparr>))"

text \<open>\<open>GetByID\<close> and \<open>GetByName\<close>: \<open>sql.ErrNoRows\<close> is the result \<open>nil, nil\<close>.\<close>

definition GetByID :: "string \<Rightarrow> string \<Rightarrow> world \<Rightarrow> (db_error + VPC option) \<times> world" where
  "GetByID vpc_id userID w =
     (let (failed, w1) = db_call w
      in if failed then (Inl DBFailure, w1)
         else (Inr (find (\<lambda>v. ID v = vpc_id \<and> UserID v = userID) (vpcs w1)), w1))"

definition GetByName :: "string \<Rightarrow> string \<Rightarrow> world \<Rightarrow> (db_error + VPC option) \<times> world" where
  "GetByName name userID w =
     (let (failed, w1) = db_call w
      in if failed then (Inl DBFailure, w1)
         else (Inr (find (\<lambda>v. Name v = name \<and> UserID v = userID) (vpcs w1)), w1))"

text \<open>
  The values a dynamic update can carry, and the columns of \<open>vpcs\<close> an \<open>UPDATE\<close> can
  set besides \<open>updated_at\<close>, which \<open>Update\<close> always sets itself (so a map that names it
  assigns the column twice, which the store rejects, as it rejects an unknown column or
  a value that does not fit the column).
\<close>

datatype sql_value = VText string | VNull | VTime nat

definition settable_columns :: "string list" where
  "settable_columns = [''id'', ''name'', ''cidr_block'', ''description'', ''user_id'', ''created_at'']"

definition value_fits :: "string \<Rightarrow> sql_value \<Rightarrow> bool" where
  "value_fits col v =
     (if col = ''description'' then (case v of VTime t \<Rightarrow> False | _ \<Rightarrow> True)
      else if col = ''created_at'' then (case v of VTime t \<Rightarrow> True | _ \<Rightarrow> False)
      else (case v of VText t \<Rightarrow> True | _ \<Rightarrow> False))"

definition assign_column :: "string \<Rightarrow> sql_value \<Rightarrow> VPC \<Rightarrow> VPC" where
  "assign_column col v row =
     (case v of
        VText t \<Rightarrow>
          (if col = ''id'' then row\<lparr>ID := t\<rparr>
           else if col = ''name'' then row\<lparr>Name := t\<rparr>
           else if col = ''cidr_block'' then row\<lparr>CIDRBlock := t\<rparr>
           else if col = ''description'' then row\<lparr>Description := Some t\<rparr>
           else if col = ''user_id'' then row\<lparr>UserID := t\<rparr>
           else row)
      | VNull \<Rightarrow> (if col = ''description'' then row\<lparr>Description := None\<rparr> else row)
      | VTime t \<Rightarrow> (if col = ''created_at'' then row\<lparr>CreatedAt := t\<rparr> else row))"

definition apply_updates :: "(string \<rightharpoonup> sql_value) \<Rightarrow> nat \<Rightarrow> VPC \<Rightarrow> VPC" where
  "apply_updates updates now row =
     fold (\<lambda>col r. case updates col of None \<Rightarrow> r | Some v \<Rightarrow> assign_column col v r)
       settable_columns (row\<lparr>UpdatedAt := now\<rparr>)"

text \<open>
  \<open>Update\<close>: nothing is sent for an empty map; otherwise every row with the given id
  and owner gets the map's columns and \<open>updated_at\<close>, and no such row is an error.
\<close>

definition Update ::
  "string \<Rightarrow> string \<Rightarrow> (string \<rightharpoonup> sql_value) \<Rightarrow> nat \<Rightarrow> world \<Rightarrow> (db_error + unit) \<times> world" where
  "Update vpc_id userID updates now w =
     (if dom updates = {} then (Inr (), w)
      else
        let (failed, w1) = db_call w;
            hit = (\<lambda>v. ID v = vpc_id \<and> UserID v = userID);
            rows = map (\<lambda>v. if hit v then apply_updates updates now v else v) (vpcs w1)
        in if failed then (Inl DBFailure, w1)
           else if \<not> dom updates \<subseteq> set settable_columns
                   \<or> \<not> list_all (\<lambda>col. case updates col of None \<Rightarrow> True | Some v \<Rightarrow> value_fits col v)
                          settable_columns
                then (Inl StatementRejected, w1)
           else if updates ''id'' \<noteq> None \<and> \<not> distinct (map ID rows) then (Inl DuplicateKey, w1)
           else if \<not> list_ex hit (vpcs w1) then (Inl NoRowsAffected, w1)
           else (Inr (), w1\<lparr>vpcs := rows\<rparr>))"

text \<open>\<open>Delete\<close>: the rows of the id and owner go, and with them the subnets of the VPC.\<close>

definition Delete :: "string \<Rightarrow> string \<Rightarrow> world \<Rightarrow> (db_error + unit) \<times> world" where
  "Delete vpc_id userID w =
     (let (failed, w1) = db_call w;
          hit = (\<lambda>v. ID v = vpc_id \<and> UserID v = userID)
      in if failed then (Inl DBFailure, w1)
         else if \<not> list_ex hit (vpcs w1) then (Inl NoRowsAffected, w1)
         else (Inr (), w1\<lparr>vpcs := filter (\<lambda>v. \<not> hit v) (vpcs w1),
                            subnets := filter (\<lambda>s. Subnet_VPCID s \<noteq> vpc_id) (subnets w1)\<rparr>))"

text \<open>\<open>CheckCIDRConflict\<close>: is there a row of the user with this block (other than \<open>excludeID\<close>)?\<close>

definition CheckCIDRConflict ::
  "string \<Rightarrow> string \<Rightarrow> string option \<Rightarrow> world \<Rightarrow> (db_error + bool) \<times> world" where
  "CheckCIDRConflict cidrBlock userID excludeID w =
     (let (failed, w1) = db_call w
      in if failed then (Inl DBFailure, w1)
         else (Inr (length (filter (\<lambda>v. UserID v = userID \<and> CIDRBlock v = cidrBlock
                                        \<and> (case excludeID of None \<Rightarrow> True | Some x \<Rightarrow> ID v \<noteq> x))
                              (vpcs w1)) > 0), w1))"

section \<open>VPC service\<close>

text \<open>\<open>dto.CreateVPCRequest\<close> and \<open>dto.UpdateVPCRequest\<close>.\<close>

record CreateVPCRequest =
  new_Name :: string
  new_CIDRBlock :: string
  new_Description :: "string option"

record UpdateVPCRequest =
  upd_Name :: "string option"
  upd_Description :: "string option"

text \<open>
  The errors the service returns: the four sentinels of package \<open>errors\<close> it can name,
  the two wrapped kinds (\<open>DB_ERROR\<close>, \<open>OVS_ERROR\<close>), and the panic of slicing a short id.
\<close>

datatype service_error =
    ErrInvalidCIDR
  | ErrVPCNotFound
  | ErrVPCAlreadyExists
  | ErrCIDRConflict
  | DB_ERROR db_error
  | OVS_ERROR ovs_error
  | PanicSliceBounds

text \<open>
  \<open>CreateVPC\<close>. \<open>uuid.New().String()\<close> and \<open>time.Now()\<close> are the parameters \<open>newID\<close> and
  \<open>now\<close>. The result of the rollback's \<open>Delete\<close> is only logged.
\<close>

definition CreateVPC ::
  "addr_parser \<Rightarrow> string \<Rightarrow> CreateVPCRequest \<Rightarrow> string \<Rightarrow> nat \<Rightarrow> world
     \<Rightarrow> (service_error + VPC) \<times> world" where
  "CreateVPC parseAddr userID req newID now w =
     (case validateCIDRBlock parseAddr (new_CIDRBlock req) of
        Some err \<Rightarrow> (Inl ErrInvalidCIDR, w)
      | None \<Rightarrow>
          (case GetByName (new_Name req) userID w of
             (Inl err, w1) \<Rightarrow> (Inl ErrVPCNotFound, w1)
           | (Inr (Some existingVPC), w1) \<Rightarrow> (Inl ErrVPCAlreadyExists, w1)
           | (Inr None, w1) \<Rightarrow>
               (let vpc = \<lparr>ID = newID, Name = new_Name req, CIDRBlock = new_CIDRBlock req,
                           Description = new_Description req, UserID = userID,
                           CreatedAt = now, UpdatedAt = now\<rparr>
                in case Create vpc w1 of
                     (Inl err, w2) \<Rightarrow> (Inl (DB_ERROR err), w2)
                   | (Inr u, w2) \<Rightarrow>
                       (case vpcBridgeName (ID vpc) of
                          None \<Rightarrow> (Inl PanicSliceBounds, w2)
                        | Some bridgeName \<Rightarrow>
                            (case CreateBridge parseAddr bridgeName (CIDRBlock vpc) w2 of
                               (Inl err, w3) \<Rightarrow>
                                 (Inl (OVS_ERROR err), snd (Delete (ID vpc) userID w3))
                             | (Inr u', w3) \<Rightarrow> (Inr vpc, w3))))))"

text \<open>The status the HTTP handler of \<open>CreateVPC\<close> answers with.\<close>

definition CreateVPC_status :: "service_error + VPC \<Rightarrow> nat" where
  "CreateVPC_status r =
     (case r of
        Inr vpc \<Rightarrow> 201
      | Inl ErrVPCAlreadyExists \<Rightarrow> 409
      | Inl ErrInvalidCIDR \<Rightarrow> 400
      | Inl ErrCIDRConflict \<Rightarrow> 409
      | Inl other \<Rightarrow> 500)"

text \<open>
  \<open>UpdateVPC\<close>. First the part that decides whether the name goes into the update map
  (the name is new and no other VPC of the user has it), then the rest.
\<close>

definition nameUpdate ::
  "string \<Rightarrow> string \<Rightarrow> UpdateVPCRequest \<Rightarrow> VPC \<Rightarrow> world
     \<Rightarrow> (service_error + (string \<rightharpoonup> sql_value)) \<times> world" where
  "nameUpdate vpc_id userID req existingVPC w =
     (case upd_Name req of
        None \<Rightarrow> (Inr Map.empty, w)
      | Some n \<Rightarrow>
          if n = Name existingVPC then (Inr Map.empty, w)
          else
            (case GetByName n userID w of
               (Inl err, w1) \<Rightarrow> (Inl (DB_ERROR err), w1)
             | (Inr (Some conflictVPC), w1) \<Rightarrow>
                 if ID conflictVPC \<noteq> vpc_id then (Inl ErrVPCAlreadyExists, w1)
                 else (Inr [''name'' \<mapsto> VText n], w1)
             | (Inr None, w1) \<Rightarrow> (Inr [''name'' \<mapsto> VText n], w1)))"

definition UpdateVPC ::
  "string \<Rightarrow> string \<Rightarrow> UpdateVPCRequest \<Rightarrow> nat \<Rightarrow> world
     \<Rightarrow> (service_error + VPC option) \<times> world" where
  "UpdateVPC vpc_id userID req now w =
     (case GetByID vpc_id userID w of
        (Inl err, w1) \<Rightarrow> (Inl (DB_ERROR err), w1)
      | (Inr None, w1) \<Rightarrow> (Inl ErrVPCNotFound, w1)
      | (Inr (Some existingVPC), w1) \<Rightarrow>
          (case nameUpdate vpc_id userID req existingVPC w1 of
             (Inl err, w2) \<Rightarrow> (Inl err, w2)
           | (Inr updates1, w2) \<Rightarrow>
               (let updates = (case upd_Description req of
                                 None \<Rightarrow> updates1
                               | Some d \<Rightarrow> updates1(''description'' \<mapsto> VText d))
                in if dom updates = {} then (Inr (Some existingVPC), w2)
                   else
                     (case Update vpc_id userID updates now w2 of
                        (Inl err, w3) \<Rightarrow> (Inl (DB_ERROR err), w3)
                      | (Inr u, w3) \<Rightarrow>
                          (case GetByID vpc_id userID w3 of
                             (Inl err, w4) \<Rightarrow> (Inl (DB_ERROR err), w4)
                           | (Inr updatedVPC, w4) \<Rightarrow> (Inr updatedVPC, w4))))))"

text \<open>
  \<open>DeleteVPC\<close>: a failed \<open>DeleteBridge\<close> is only logged and the record is deleted all the
  same.
\<close>

definition DeleteVPC :: "string \<Rightarrow> string \<Rightarrow> world \<Rightarrow> (service_error + unit) \<times> world" where
  "DeleteVPC vpc_id userID w =
     (case GetByID vpc_id userID w of
        (Inl err, w1) \<Rightarrow> (Inl (DB_ERROR err), w1)
      | (Inr None, w1) \<Rightarrow> (Inl ErrVPCNotFound, w1)
      | (Inr (Some vpc), w1) \<Rightarrow>
          (case vpcBridgeName vpc_id of
             None \<Rightarrow> (Inl PanicSliceBounds, w1)
           | Some bridgeName \<Rightarrow>
               (let w2 = snd (DeleteBridge bridgeName w1)
                in case Delete vpc_id userID w2 of
                     (Inl err, w3) \<Rightarrow> (Inl (DB_ERROR err), w3)
                   | (Inr u, w3) \<Rightarrow> (Inr (), w3))))"

text \<open>The commands that leave the set of bridges as it is.\<close>

fun keeps_bridges :: "command \<Rightarrow> bool" where
  "keeps_bridges (CmdAddBr n) = False"
| "keeps_bridges (CmdDelBr n) = False"
| "keeps_bridges c = True"

text \<open>The external commands leave the store and its fault schedule as they are.\<close>

definition same_store :: "world \<Rightarrow> world \<Rightarrow> bool" where
  "same_store w w' = (vpcs w' = vpcs w \<and> subnets w' = subnets w \<and> db_faults w' = db_faults w)"

section \<open>Example inputs\<close>

definition flow_example :: Flow where
  "flow_example =
     \<lparr>Priority = 100, Match = ''ip,nw_src=10.0.0.0/8'', Actions = ''drop'', Table = 1,
      IdleAge = 0, HardAge = 0, Cookie = [], PacketCount = 0, ByteCount = 0\<rparr>"

definition flow_trailing_comma :: Flow where
  "flow_trailing_comma =
     \<lparr>Priority = 0, Match = [], Actions = ''drop,'', Table = 0,
      IdleAge = 0, HardAge = 0, Cookie = [], PacketCount = 0, ByteCount = 0\<rparr>"

definition example_id :: string where
  "example_id = ''123e4567-e89b-12d3-a456-426614174000''"

definition example_request :: CreateVPCRequest where
  "example_request =
     \<lparr>new_Name = ''staging'', new_CIDRBlock = ''10.0.0.0/16'', new_Description = None\<rparr>"

text \<open>A request for a block outside the private ranges.\<close>

definition public_request :: CreateVPCRequest where
  "public_request =
     \<lparr>new_Name = ''lab'', new_CIDRBlock = ''8.8.8.0/24'', new_Description = None\<rparr>"

definition prod_vpc :: VPC where
  "prod_vpc =
     \<lparr>ID = ''0a1b2c3d-0000-4000-8000-000000000001'', Name = ''prod'',
      CIDRBlock = ''10.0.0.0/16'', Description = None, UserID = ''u1'',
      CreatedAt = 1, UpdatedAt = 1\<rparr>"

definition prod_subnet :: Subnet where
  "prod_subnet =
     \<lparr>Subnet_ID = ''5e6f7a8b-0000-4000-8000-000000000002'',
      Subnet_VPCID = ''0a1b2c3d-0000-4000-8000-000000000001'', Subnet_Name = ''web'',
      Subnet_CIDRBlock = ''10.0.1.0/24'', Subnet_AvailabilityZone = ''az1'',
      Subnet_IsPublic = True, Subnet_CreatedAt = 2, Subnet_UpdatedAt = 2\<rparr>"

text \<open>Nothing stored, no bridge, nothing going wrong.\<close>

definition world_empty :: world where
  "world_empty = \<lparr>vpcs = [], subnets = [], switch = [], db_faults = [], tool_faults = []\<rparr>"

text \<open>One bridge \<open>br0\<close> without ports.\<close>

definition world_br0 :: world where
  "world_br0 = world_empty\<lparr>switch := [(''br0'', new_bridge)]\<rparr>"

text \<open>The VPC \<open>prod\<close> of user \<open>u1\<close> is stored.\<close>

definition world_prod :: world where
  "world_prod = world_empty\<lparr>vpcs := [prod_vpc]\<rparr>"

text \<open>
  The VPC \<open>prod\<close> with a subnet, and its bridge with the port \<open>tap0\<close> of an instance.
\<close>

definition world_prod_in_use :: world where
  "world_prod_in_use =
     world_empty\<lparr>vpcs := [prod_vpc], subnets := [prod_subnet],
       switch := [(''gcp-vpc-0a1b2c3d'', new_bridge\<lparr>br_ports := [(''tap0'', False)], br_up := True\<rparr>)]\<rparr>"

text \<open>The store answers one statement and fails the second.\<close>

definition world_second_statement_fails :: world where
  "world_second_statement_fails = world_empty\<lparr>db_faults := [False, True]\<rparr>"

text \<open>The store answers two statements and fails the third.\<close>

definition world_third_statement_fails :: world where
  "world_third_statement_fails = world_empty\<lparr>db_faults := [False, False, True]\<rparr>"

section \<open>Flow specifications\<close>

lemma TrimSuffix_single:
  "TrimSuffix s [c] = (if s \<noteq> [] \<and> last s = c then butlast s else s)"
proof (cases s rule: rev_cases)
  case Nil
  then show ?thesis by (simp add: TrimSuffix_def HasSuffix_def)
next
  case (snoc ys y)
  then show ?thesis by (simp add: TrimSuffix_def HasSuffix_def)
qed

text \<open>
  Claim C8, as amended. For every flow whose actions do not end in a comma,
  \<open>buildFlowSpec\<close> gives exactly the present fields in the order table, priority, match,
  actions, joined by single commas, so an absent field contributes nothing and no
  separator follows the last field. (A numeric field is present when it is greater than
  zero.)
\<close>

theorem buildFlowSpec_joins_fields:
  assumes "Actions flow = [] \<or> last (Actions flow) \<noteq> CHR '',''"
  shows "buildFlowSpec flow = wire_of_fields flow"
proof (cases "Actions flow = []")
  case True
  then show ?thesis
    by (simp add: buildFlowSpec_def wire_of_fields_def flow_fields_def TrimSuffix_single
        butlast_append)
next
  case False
  with assms have "last (Actions flow) \<noteq> CHR '',''" by simp
  with False show ?thesis
    by (simp add: buildFlowSpec_def wire_of_fields_def flow_fields_def TrimSuffix_single)
qed

text \<open>The theorem at a flow with all four fields.\<close>

theorem buildFlowSpec_joins_fields_witness:
  "last (Actions flow_example) \<noteq> CHR '','' \<and>
   buildFlowSpec flow_example = ''table=1,priority=100,ip,nw_src=10.0.0.0/8,actions=drop''"
proof -
  have h: "Actions flow_example = [] \<or> last (Actions flow_example) \<noteq> CHR '',''"
    by (simp add: flow_example_def)
  have "wire_of_fields flow_example = ''table=1,priority=100,ip,nw_src=10.0.0.0/8,actions=drop''"
    by code_simp
  with buildFlowSpec_joins_fields [OF h] h show ?thesis
    by (simp add: flow_example_def)
qed

text \<open>
  Claim C8 as stated fails for a flow whose actions end in a comma: the trimming takes
  the last character of the actions field itself, so the result is not the
  concatenation of the fields.
\<close>

theorem buildFlowSpec_counterexample:
  "buildFlowSpec flow_trailing_comma = ''actions=drop'' \<and>
   wire_of_fields flow_trailing_comma = ''actions=drop,'' \<and>
   buildFlowSpec flow_trailing_comma \<noteq> wire_of_fields flow_trailing_comma"
  by code_simp

section \<open>Reading the example addresses\<close>

lemma parseAddr4_10_0: "parseAddr4 ''10.0.0.0'' = Some (IP4 0x0A000000)"
  by (simp add: parseAddr4_def parseOctet_def isDigit_def decimal_value_def)

lemma ParseCIDR_10_0_16:
  "ParseCIDR parseAddr4 ''10.0.0.0/16'' = Some \<lparr>IP = IP4 0x0A000000, Ones = 16\<rparr>"
  by (simp add: ParseCIDR_def parseAddr4_10_0 isDigit_def decimal_value_def BitLen_def
      MaskIP_def CIDRMask32_def mask_eq_exp_minus_1)

lemma validate_10_0_16: "validateCIDRBlock parseAddr4 ''10.0.0.0/16'' = None"
  by (simp add: validateCIDRBlock_def ParseCIDR_10_0_16 privateRanges_def Contains_def To4_def
      CIDRMask32_def mask_eq_exp_minus_1)

lemma parseAddr4_8_8: "parseAddr4 ''8.8.8.0'' = Some (IP4 0x08080800)"
  by (simp add: parseAddr4_def parseOctet_def isDigit_def decimal_value_def)

lemma validate_8_8_8_0_24: "validateCIDRBlock parseAddr4 ''8.8.8.0/24'' = Some CIDRNotPrivate"
  by (simp add: validateCIDRBlock_def ParseCIDR_def parseAddr4_8_8 isDigit_def decimal_value_def
      BitLen_def MaskIP_def privateRanges_def Contains_def To4_def CIDRMask32_def
      mask_eq_exp_minus_1)

lemma validate_10_0_0_0_8: "validateCIDRBlock parseAddr4 ''10.0.0.0/8'' = Some CIDRBadPrefix"
  by (simp add: validateCIDRBlock_def ParseCIDR_def parseAddr4_10_0 isDigit_def decimal_value_def
      BitLen_def MaskIP_def privateRanges_def Contains_def To4_def CIDRMask32_def
      mask_eq_exp_minus_1)

section \<open>Bridge names\<close>

lemma vpcBridgeName_too_long:
  "vpcBridgeName i = Some n \<Longrightarrow> validateBridgeName n = Some NameTooLong"
  by (auto simp: vpcBridgeName_def validateBridgeName_def split: if_splits)

text \<open>
  Claim C1 fails on the code. The prefix \<open>gcp-vpc-\<close> has 8 characters and 8 more of
  the id follow, so the name has 16 characters and \<open>validateBridgeName\<close> rejects it as
  longer than 15; here at the id \<open>123e4567-e89b-12d3-a456-426614174000\<close>, where
  \<open>CreateBridge\<close> returns the error before it runs any command.
\<close>

theorem vpc_bridge_name_rejected:
  "vpcBridgeName example_id = Some ''gcp-vpc-123e4567'' \<and>
   length ''gcp-vpc-123e4567'' = 16 \<and>
   validateBridgeName ''gcp-vpc-123e4567'' = Some NameTooLong \<and>
   CreateBridge parseAddr4 ''gcp-vpc-123e4567'' ''10.0.0.0/16'' world_empty
     = (Inl (InvalidBridgeName NameTooLong), world_empty)"
  by code_simp

section \<open>Running commands\<close>

lemma ExitCode_2: "ExitCode e = Some 2 \<longleftrightarrow> e = ExitError 2"
  by (cases e) (auto simp: ExitCode_def)

lemma runCommand_healthy:
  "tool_faults w = [] \<Longrightarrow>
   runCommand c w = (fst (tool c (switch w)), w\<lparr>switch := snd (tool c (switch w))\<rparr>)"
  by (simp add: runCommand_def split: prod.splits)

lemma runCommand_no_faults:
  "runCommand c w = (r, w') \<Longrightarrow> tool_faults w = [] \<Longrightarrow> tool_faults w' = []"
  by (auto simp: runCommand_def split: prod.splits)

lemma snd_runCommand_no_faults:
  "tool_faults w = [] \<Longrightarrow> tool_faults (snd (runCommand c w)) = []"
  by (metis runCommand_no_faults prod.collapse)

lemma runCommand_switch:
  "switch (snd (runCommand c w)) = switch w
   \<or> switch (snd (runCommand c w)) = snd (tool c (switch w))"
  by (auto simp: runCommand_def split: list.splits option.splits prod.splits)

section \<open>The existence check\<close>

text \<open>
  Claim C9. \<open>BridgeExists\<close> answers \<open>true\<close> exactly when the tool exits with 0, answers
  \<open>false\<close> without an error exactly when the tool exits with status 2 (its outcome for
  a bridge that does not exist), and returns an error exactly for every other outcome
  (another exit status, a signal, a process that could not be started). Absence is
  never an error and a failure is never reported as absence.
\<close>

theorem BridgeExists_distinguishes:
  "(fst (BridgeExists name w) = Inr True
      \<longleftrightarrow> fst (runCommand (CmdBrExists name) w) = None) \<and>
   (fst (BridgeExists name w) = Inr False
      \<longleftrightarrow> fst (runCommand (CmdBrExists name) w) = Some (ExitError 2)) \<and>
   ((\<exists>err. fst (BridgeExists name w) = Inl err)
      \<longleftrightarrow> (\<exists>e. fst (runCommand (CmdBrExists name) w) = Some e \<and> e \<noteq> ExitError 2)) \<and>
   snd (BridgeExists name w) = snd (runCommand (CmdBrExists name) w)"
  by (auto simp: BridgeExists_def ExitCode_2 split: prod.splits option.splits)

lemma BridgeExists_healthy:
  "tool_faults w = [] \<Longrightarrow> BridgeExists name w = (Inr (has_bridge (switch w) name), w)"
  by (simp add: BridgeExists_def runCommand_healthy tool_def ExitCode_def)

section \<open>Bridges\<close>

lemma has_bridge_iff: "has_bridge sw name \<longleftrightarrow> name \<in> fst ` set sw"
  by (simp add: has_bridge_def map_of_eq_None_iff)

lemma has_bridge_change [simp]: "has_bridge (change_bridge sw n f) m = has_bridge sw m"
  by (force simp: has_bridge_iff change_bridge_def image_iff split: if_splits)

lemma has_bridge_add [simp]: "has_bridge (sw @ [(n, b)]) m \<longleftrightarrow> m = n \<or> has_bridge sw m"
  by (auto simp: has_bridge_iff)

lemma tool_keeps_bridges:
  "keeps_bridges c \<Longrightarrow> has_bridge (snd (tool c sw)) m = has_bridge sw m"
  by (cases c) (auto simp: tool_def split: option.splits)

lemma runCommand_keeps_bridges:
  "keeps_bridges c \<Longrightarrow> has_bridge (switch (snd (runCommand c w))) m = has_bridge (switch w) m"
  using runCommand_switch [of c w] tool_keeps_bridges [of c "switch w" m] by auto

lemma setBridgeOptions_keeps_bridges:
  "has_bridge (switch (setBridgeOptions name kvs w)) m = has_bridge (switch w) m"
  by (induction name kvs w rule: setBridgeOptions.induct) (simp_all add: runCommand_keeps_bridges)

lemma setBridgeOptions_no_faults:
  "tool_faults w = [] \<Longrightarrow> tool_faults (setBridgeOptions name kvs w) = []"
  by (induction name kvs w rule: setBridgeOptions.induct) (simp_all add: snd_runCommand_no_faults)

lemma runCommand_AddBr_ok:
  "runCommand (CmdAddBr name) w = (None, w2) \<Longrightarrow> has_bridge (switch w2) name"
  by (auto simp: runCommand_def tool_def split: list.splits option.splits if_splits)

lemma DeleteBridge_no_faults:
  "tool_faults w = [] \<Longrightarrow> tool_faults (snd (DeleteBridge name w)) = []"
  by (auto simp: DeleteBridge_def BridgeExists_healthy split: prod.splits option.splits
      bool.splits dest: runCommand_no_faults)

lemma CreateBridge_no_faults:
  assumes "tool_faults w = []"
  shows "tool_faults (snd (CreateBridge pa name cidr w)) = []"
proof -
  have "\<And>c wa r wb. runCommand c wa = (r, wb) \<Longrightarrow> tool_faults wa = [] \<Longrightarrow> tool_faults wb = []"
    by (rule runCommand_no_faults)
  with assms show ?thesis
    by (auto simp: CreateBridge_def BridgeExists_healthy setBridgeOptions_no_faults
        snd_runCommand_no_faults DeleteBridge_no_faults
        split: prod.splits option.splits bool.splits)
qed

lemma CreateBridge_ok_has_bridge:
  assumes "CreateBridge pa name cidr w = (Inr (), w1)"
  shows "has_bridge (switch w1) name \<and> validateBridgeName name = None"
proof -
  from assms obtain wa ipNet wb wc where
    v: "validateBridgeName name = None" and
    a: "runCommand (CmdAddBr name) wa = (None, wb)" and
    l: "runCommand (CmdLinkSetUp name) wb = (None, wc)" and
    e: "w1 = setBridgeOptions name bridgeOptions
              (snd (runCommand (CmdAddrAdd (getFirstIP ipNet) (getPrefixLength ipNet) name) wc))"
    by (auto simp: CreateBridge_def Let_def split: option.splits prod.splits sum.splits bool.splits)
  from a have "has_bridge (switch wb) name" by (rule runCommand_AddBr_ok)
  moreover from l have "wc = snd (runCommand (CmdLinkSetUp name) wb)" by simp
  ultimately have "has_bridge (switch wc) name"
    by (simp add: runCommand_keeps_bridges)
  with e v show ?thesis
    by (simp add: setBridgeOptions_keeps_bridges runCommand_keeps_bridges)
qed

lemma CreateBridge_fresh_ok:
  assumes "validateBridgeName name = None" "tool_faults w = []"
    "\<not> has_bridge (switch w) name" "ParseCIDR pa cidr = Some n"
  shows "fst (CreateBridge pa name cidr w) = Inr ()"
proof -
  from assms(2,3) have a: "runCommand (CmdAddBr name) w
      = (None, w\<lparr>switch := switch w @ [(name, new_bridge)]\<rparr>)"
    by (simp add: runCommand_healthy tool_def)
  have l: "fst (runCommand (CmdLinkSetUp name)
                 (w\<lparr>switch := switch w @ [(name, new_bridge)]\<rparr>)) = None"
    using assms(2) by (simp add: runCommand_healthy tool_def)
  from assms a l show ?thesis
    by (auto simp: CreateBridge_def BridgeExists_healthy split: prod.splits option.splits)
qed

lemma CreateBridge_existing:
  assumes "validateBridgeName name = None" "tool_faults w = []" "has_bridge (switch w) name"
  shows "CreateBridge pa name cidr w = (Inl (BridgeAlreadyExists name), w)"
  using assms by (simp add: CreateBridge_def BridgeExists_healthy)

text \<open>
  Claim C2, as amended. Bridge creation is not idempotent: with the tools working,
  \<open>CreateBridge\<close> for a valid name that already denotes a bridge returns the error
  "bridge already exists" and leaves the switch as it is; so after a \<open>CreateBridge\<close>
  that succeeded, a second one for the same name fails with that error and changes
  nothing.
\<close>

theorem CreateBridge_existing_is_error:
  "(validateBridgeName name = None \<and> tool_faults w = [] \<and> has_bridge (switch w) name
      \<longrightarrow> CreateBridge pa name cidr w = (Inl (BridgeAlreadyExists name), w)) \<and>
   (CreateBridge pa name cidr w = (Inr (), w1) \<and> tool_faults w1 = []
      \<longrightarrow> CreateBridge pa name cidr w1 = (Inl (BridgeAlreadyExists name), w1))"
  using CreateBridge_existing CreateBridge_ok_has_bridge by blast

text \<open>
  The theorem at the switch with the bridge \<open>br0\<close>: creating \<open>br0\<close> again is the
  error, and creating \<open>br1\<close> works once and is the error the second time.
\<close>

theorem CreateBridge_existing_is_error_witness:
  "validateBridgeName ''br0'' = None \<and> tool_faults world_br0 = [] \<and>
   has_bridge (switch world_br0) ''br0'' \<and>
   CreateBridge parseAddr4 ''br0'' ''10.0.0.0/16'' world_br0
     = (Inl (BridgeAlreadyExists ''br0''), world_br0) \<and>
   fst (CreateBridge parseAddr4 ''br1'' ''10.0.0.0/16'' world_br0) = Inr () \<and>
   tool_faults (snd (CreateBridge parseAddr4 ''br1'' ''10.0.0.0/16'' world_br0)) = [] \<and>
   CreateBridge parseAddr4 ''br1'' ''10.0.0.0/16''
       (snd (CreateBridge parseAddr4 ''br1'' ''10.0.0.0/16'' world_br0))
     = (Inl (BridgeAlreadyExists ''br1''),
        snd (CreateBridge parseAddr4 ''br1'' ''10.0.0.0/16'' world_br0))"
proof -
  let ?w1 = "snd (CreateBridge parseAddr4 ''br1'' ''10.0.0.0/16'' world_br0)"
  have a1: "validateBridgeName ''br0'' = None" by code_simp
  have a2: "tool_faults world_br0 = []" by code_simp
  have a3: "has_bridge (switch world_br0) ''br0''" by code_simp
  have n1: "validateBridgeName ''br1'' = None" by code_simp
  have n2: "\<not> has_bridge (switch world_br0) ''br1''" by code_simp
  have b: "fst (CreateBridge parseAddr4 ''br1'' ''10.0.0.0/16'' world_br0) = Inr ()"
    using n1 a2 n2 ParseCIDR_10_0_16 by (rule CreateBridge_fresh_ok)
  have c: "tool_faults ?w1 = []" using a2 by (rule CreateBridge_no_faults)
  have d: "CreateBridge parseAddr4 ''br1'' ''10.0.0.0/16'' world_br0 = (Inr (), ?w1)"
    using b by (simp add: prod_eq_iff)
  have e: "CreateBridge parseAddr4 ''br0'' ''10.0.0.0/16'' world_br0
     = (Inl (BridgeAlreadyExists ''br0''), world_br0)"
    using CreateBridge_existing_is_error [of "''br0''" world_br0 parseAddr4 "''10.0.0.0/16''"]
      a1 a2 a3 by blast
  have f: "CreateBridge parseAddr4 ''br1'' ''10.0.0.0/16'' ?w1
     = (Inl (BridgeAlreadyExists ''br1''), ?w1)"
    using CreateBridge_existing_is_error
      [of "''br1''" world_br0 parseAddr4 "''10.0.0.0/16''" ?w1] c d by blast
  show ?thesis using a1 a2 a3 b c e f by blast
qed

text \<open>
  Claim C2 as stated fails: \<open>br0\<close> exists, and creating it is an error, not a success.
\<close>

theorem CreateBridge_counterexample:
  "has_bridge (switch world_br0) ''br0'' \<and>
   fst (CreateBridge parseAddr4 ''br0'' ''10.0.0.0/16'' world_br0)
     = Inl (BridgeAlreadyExists ''br0'') \<and>
   fst (CreateBridge parseAddr4 ''br0'' ''10.0.0.0/16'' world_br0) \<noteq> Inr ()"
  by code_simp

section \<open>Ports\<close>

text \<open>
  Claim C6 fails on the code. The bridge \<open>br0\<close> has no port \<open>p1\<close>; \<open>ovs-vsctl del-port\<close>
  exits with status 1, the error reads \<open>exit status 1\<close>, which does not contain
  \<open>no port named\<close>, and \<open>DeletePort\<close> returns the error.
\<close>

theorem DeletePort_absent_fails:
  "\<not> port_known (switch world_br0) ''p1'' \<and>
   Error_text (ExitError 1) = ''exit status 1'' \<and>
   DeletePort ''br0'' ''p1'' world_br0
     = (Inl (DeletePortFailed ''p1'' ''br0'' (ExitError 1)), world_br0)"
  by code_simp

section \<open>CIDR validation\<close>

lemma bit_CIDRMask32: "bit (CIDRMask32 n) i \<longleftrightarrow> i < 32 \<and> 32 - n \<le> i"
  by (auto simp: CIDRMask32_def bit_simps)

lemma bit_CIDRMask128: "bit (CIDRMask128 n) i \<longleftrightarrow> i < 128 \<and> 128 - n \<le> i"
  by (auto simp: CIDRMask128_def bit_simps)

lemma CIDRMask32_narrow: "k \<le> p \<Longrightarrow> CIDRMask32 p AND CIDRMask32 k = CIDRMask32 k"
  by (rule bit_eqI) (auto simp: bit_simps bit_CIDRMask32)

lemma To4_masked6: 
  assumes "p \<le> 28"
  shows "To4 (IP6 (x AND CIDRMask128 p)) = None"
proof -
  have "\<not> bit (x AND CIDRMask128 p) 32"
    using assms by (auto simp: bit_simps bit_CIDRMask128)
  then have "\<not> bit (drop_bit 32 (x AND CIDRMask128 p)) 0"
    by (simp add: bit_simps)
  moreover have "bit (0xFFFF :: 128 word) 0" by simp
  ultimately have "drop_bit 32 (x AND CIDRMask128 p) \<noteq> 0xFFFF" by metis
  then show ?thesis by (simp add: To4_def)
qed

lemma privateRanges_shape:
  "r \<in> set privateRanges \<Longrightarrow> \<exists>rr k. r = \<lparr>IP = IP4 rr, Ones = k\<rparr> \<and> k \<le> 16"
  by (auto simp: privateRanges_def)

lemma Contains_v4net:
  "Contains \<lparr>IP = IP4 rr, Ones = k\<rparr> a =
     (case To4 a of Some y \<Rightarrow> rr AND CIDRMask32 k = y AND CIDRMask32 k | None \<Rightarrow> False)"
  by (simp add: Contains_def split: option.splits)

lemma private_block_iff:
  assumes n: "IP n = MaskIP a (Ones n)" and lo: "16 \<le> Ones n" and hi: "Ones n \<le> 28"
  shows "list_ex (\<lambda>r. Contains r (IP n)) privateRanges \<longleftrightarrow> within_private n"
proof
  assume "list_ex (\<lambda>r. Contains r (IP n)) privateRanges"
  then obtain r where r: "r \<in> set privateRanges" and c: "Contains r (IP n)"
    by (auto simp: list_ex_iff)
  from r obtain rr k where rk: "r = \<lparr>IP = IP4 rr, Ones = k\<rparr>" and k: "k \<le> 16"
    using privateRanges_shape by blast
  have "\<forall>b. in_block n b \<longrightarrow> Contains r b"
  proof (intro allI impI)
    fix b assume b: "in_block n b"
    show "Contains r b"
    proof (cases a)
      case (IP4 x)
      with n have nn: "IP n = IP4 (x AND CIDRMask32 (Ones n))" by (simp add: MaskIP_def)
      with b obtain y where y: "b = IP4 y" "y AND CIDRMask32 (Ones n) = x AND CIDRMask32 (Ones n)"
        by (cases b) (auto simp: in_block_def)
      from c nn rk have "rr AND CIDRMask32 k = (x AND CIDRMask32 (Ones n)) AND CIDRMask32 k"
        by (simp add: Contains_v4net To4_def)
      also have "\<dots> = (y AND CIDRMask32 (Ones n)) AND CIDRMask32 k" using y by simp
      also have "\<dots> = y AND CIDRMask32 k"
        using k lo by (simp add: and.assoc CIDRMask32_narrow)
      finally show ?thesis using rk y by (simp add: Contains_v4net To4_def)
    next
      case (IP6 x)
      with n have "IP n = IP6 (x AND CIDRMask128 (Ones n))" by (simp add: MaskIP_def)
      with c rk hi show ?thesis by (simp add: Contains_v4net To4_masked6)
    qed
  qed
  with r show "within_private n" by (auto simp: within_private_def)
next
  assume "within_private n"
  then obtain r where r: "r \<in> set privateRanges" and c: "\<forall>b. in_block n b \<longrightarrow> Contains r b"
    by (auto simp: within_private_def)
  have "in_block n (IP n)"
    using n by (cases a) (simp_all add: in_block_def MaskIP_def and.assoc)
  with c have "Contains r (IP n)" by blast
  with r show "list_ex (\<lambda>r. Contains r (IP n)) privateRanges"
    by (auto simp: list_ex_iff)
qed

lemma ParseCIDR_masked:
  "ParseCIDR pa cidr = Some n \<Longrightarrow> \<exists>a. IP n = MaskIP a (Ones n)"
  by (auto simp: ParseCIDR_def Let_def split: if_splits option.splits)

lemma validateCIDRBlock_iff: "validateCIDRBlock pa cidr = None \<longleftrightarrow> spec_valid_cidr pa cidr"
proof (cases "ParseCIDR pa cidr")
  case None
  then show ?thesis by (simp add: validateCIDRBlock_def spec_valid_cidr_def)
next
  case (Some n)
  then obtain a where a: "IP n = MaskIP a (Ones n)" using ParseCIDR_masked by blast
  show ?thesis
  proof (cases "16 \<le> Ones n \<and> Ones n \<le> 28")
    case True
    with private_block_iff [OF a] Some show ?thesis
      by (simp add: validateCIDRBlock_def spec_valid_cidr_def)
  next
    case False
    with Some show ?thesis
      by (auto simp: validateCIDRBlock_def spec_valid_cidr_def)
  qed
qed

text \<open>
  Claim C7. \<open>validateCIDRBlock\<close> accepts a text exactly when \<open>net.ParseCIDR\<close> reads it,
  every address of the block lies in one of the three private ranges, and the prefix
  length is between 16 and 28; and when it rejects the block of a request, \<open>CreateVPC\<close>
  returns the invalid-CIDR error (answered with status 400) without touching the store
  or the switch.
\<close>

theorem validateCIDRBlock_accepts_exactly:
  "(validateCIDRBlock pa cidr = None \<longleftrightarrow> spec_valid_cidr pa cidr) \<and>
   (\<not> spec_valid_cidr pa (new_CIDRBlock req) \<longrightarrow>
      CreateVPC pa userID req newID now w = (Inl ErrInvalidCIDR, w) \<and>
      CreateVPC_status (Inl ErrInvalidCIDR) = 400)"
proof -
  have "CreateVPC pa userID req newID now w = (Inl ErrInvalidCIDR, w)"
    if "\<not> spec_valid_cidr pa (new_CIDRBlock req)"
  proof -
    from that have "validateCIDRBlock pa (new_CIDRBlock req) \<noteq> None"
      by (simp add: validateCIDRBlock_iff)
    then show ?thesis by (auto simp: CreateVPC_def)
  qed
  then show ?thesis by (simp add: validateCIDRBlock_iff CreateVPC_status_def)
qed

text \<open>
  The theorem at \<open>10.0.0.0/16\<close>, which is accepted, and at the request for \<open>8.8.8.0/24\<close>,
  which is rejected and creates nothing.
\<close>

theorem validateCIDRBlock_accepts_exactly_witness:
  "validateCIDRBlock parseAddr4 ''10.0.0.0/16'' = None \<and>
   spec_valid_cidr parseAddr4 ''10.0.0.0/16'' \<and>
   \<not> spec_valid_cidr parseAddr4 (new_CIDRBlock public_request) \<and>
   CreateVPC parseAddr4 ''u1'' public_request example_id 5 world_empty
     = (Inl ErrInvalidCIDR, world_empty)"
proof -
  note t1 = validateCIDRBlock_accepts_exactly
    [of parseAddr4 "new_CIDRBlock public_request" public_request "''u1''" example_id 5 world_empty]
  note t2 = validateCIDRBlock_accepts_exactly
    [of parseAddr4 "''10.0.0.0/16''" public_request "''u1''" example_id 5 world_empty]
  have "validateCIDRBlock parseAddr4 (new_CIDRBlock public_request) \<noteq> None"
    by (simp add: public_request_def validate_8_8_8_0_24)
  with t1 have n: "\<not> spec_valid_cidr parseAddr4 (new_CIDRBlock public_request)"
    by blast
  from t2 validate_10_0_16 have "spec_valid_cidr parseAddr4 ''10.0.0.0/16''"
    by blast
  moreover from t1 n have "CreateVPC parseAddr4 ''u1'' public_request example_id 5 world_empty
     = (Inl ErrInvalidCIDR, world_empty)"
    by blast
  ultimately show ?thesis using n validate_10_0_16 by blast
qed

section \<open>Commands and the store\<close>

lemma same_store_refl [simp]: "same_store w w"
  by (simp add: same_store_def)

lemma same_store_trans: "same_store a b \<Longrightarrow> same_store b c \<Longrightarrow> same_store a c"
  by (simp add: same_store_def)

lemma runCommand_store: "runCommand c w = (r, w') \<Longrightarrow> same_store w w'"
  by (auto simp: runCommand_def same_store_def split: list.splits option.splits prod.splits)

lemma snd_runCommand_store: "same_store w (snd (runCommand c w))"
  by (metis runCommand_store prod.collapse)

lemma setBridgeOptions_store: "same_store w (setBridgeOptions name kvs w)"
proof (induction name kvs w rule: setBridgeOptions.induct)
  case (1 name w)
  then show ?case by simp
next
  case (2 name k v kvs w)
  then show ?case using snd_runCommand_store same_store_trans by (fastforce simp del: same_store_refl)
qed

lemma BridgeExists_store: "BridgeExists name w = (r, w') \<Longrightarrow> same_store w w'"
  by (auto simp: BridgeExists_def split: prod.splits option.splits if_splits dest: runCommand_store)

lemma DeleteBridge_store: "DeleteBridge name w = (r, w') \<Longrightarrow> same_store w w'"
  by (auto simp: DeleteBridge_def split: prod.splits option.splits sum.splits bool.splits
      dest!: runCommand_store BridgeExists_store intro: same_store_trans)

lemma snd_DeleteBridge_store: "same_store w (snd (DeleteBridge name w))"
  by (metis DeleteBridge_store prod.collapse)

lemma CreateBridge_store: "CreateBridge pa name cidr w = (r, w') \<Longrightarrow> same_store w w'"
proof -
  assume a: "CreateBridge pa name cidr w = (r, w')"
  show ?thesis
  proof (cases "validateBridgeName name")
    case (Some e)
    with a show ?thesis by (simp add: CreateBridge_def)
  next
    case None
    obtain r1 w1 where b: "BridgeExists name w = (r1, w1)" by fastforce
    then have s1: "same_store w w1" by (rule BridgeExists_store)
    show ?thesis
    proof (cases "r1 = Inr False \<and> ParseCIDR pa cidr \<noteq> None")
      case False
      with a None b s1 show ?thesis
        by (auto simp: CreateBridge_def split: sum.splits bool.splits option.splits)
    next
      case True
      then obtain ipNet where p: "ParseCIDR pa cidr = Some ipNet" and r1: "r1 = Inr False" by auto
      obtain r2 w2 where c: "runCommand (CmdAddBr name) w1 = (r2, w2)" by fastforce
      then have s2: "same_store w w2" using s1 runCommand_store same_store_trans by blast
      obtain r3 w3 where d: "runCommand (CmdLinkSetUp name) w2 = (r3, w3)" by fastforce
      then have s3: "same_store w w3" using s2 runCommand_store same_store_trans by blast
      have s4: "same_store w (snd (DeleteBridge name w3))"
        using s3 snd_DeleteBridge_store same_store_trans by blast
      have s5: "same_store w (setBridgeOptions name bridgeOptions
                  (snd (runCommand (CmdAddrAdd (getFirstIP ipNet) (getPrefixLength ipNet) name) w3)))"
        using s3 snd_runCommand_store setBridgeOptions_store same_store_trans by blast
      from a None b r1 p c d s2 s4 s5 show ?thesis
        by (auto simp: CreateBridge_def split: option.splits)
    qed
  qed
qed

section \<open>Creating a VPC\<close>

lemma CreateVPC_never_conflict: "fst (CreateVPC pa u req i now w) \<noteq> Inl ErrCIDRConflict"
  by (auto simp: CreateVPC_def Let_def split: option.splits prod.splits sum.splits)

lemma CreateVPC_never_succeeds: "fst (CreateVPC pa u req i now w) \<noteq> Inr v"
  by (auto simp: CreateVPC_def Let_def CreateBridge_def dest!: vpcBridgeName_too_long
      split: option.splits prod.splits sum.splits)

text \<open>
  Claim C5 fails on the code. User \<open>u1\<close> owns the VPC \<open>prod\<close> with the block
  \<open>10.0.0.0/16\<close> and asks for a VPC \<open>staging\<close> with the same block. The repository's
  \<open>CheckCIDRConflict\<close> would report the conflict, but \<open>CreateVPC\<close> never calls it: the
  request passes the name check, the record is written, and the failure that comes back
  is the bridge's (status 500), not a conflict (status 409).
\<close>

theorem CreateVPC_duplicate_cidr:
  "CIDRBlock prod_vpc = new_CIDRBlock example_request \<and> UserID prod_vpc = ''u1'' \<and>
   fst (CheckCIDRConflict (new_CIDRBlock example_request) ''u1'' None world_prod) = Inr True \<and>
   fst (CreateVPC parseAddr4 ''u1'' example_request example_id 5 world_prod)
     = Inl (OVS_ERROR (InvalidBridgeName NameTooLong)) \<and>
   CreateVPC_status (fst (CreateVPC parseAddr4 ''u1'' example_request example_id 5 world_prod))
     = 500"
proof -
  have a: "CIDRBlock prod_vpc = new_CIDRBlock example_request \<and> UserID prod_vpc = ''u1'' \<and>
   fst (CheckCIDRConflict (new_CIDRBlock example_request) ''u1'' None world_prod) = Inr True"
    by code_simp
  have v: "validateCIDRBlock parseAddr4 (new_CIDRBlock example_request) = None"
    by (simp add: example_request_def validate_10_0_16)
  have b: "fst (CreateVPC parseAddr4 ''u1'' example_request example_id 5 world_prod)
     = Inl (OVS_ERROR (InvalidBridgeName NameTooLong))"
    by (simp add: CreateVPC_def v)
       (simp add: example_request_def example_id_def world_prod_def world_empty_def prod_vpc_def
          GetByName_def Create_def db_call_def vpcBridgeName_def CreateBridge_def
          validateBridgeName_def)
  from a b show ?thesis by (simp add: CreateVPC_status_def)
qed

section \<open>Creating a VPC: the record and the bridge\<close>

lemma GetByName_world:
  "GetByName n u w = (r, w1) \<Longrightarrow>
     vpcs w1 = vpcs w \<and> subnets w1 = subnets w \<and> switch w1 = switch w
     \<and> tool_faults w1 = tool_faults w \<and> (db_faults w = [] \<longrightarrow> db_faults w1 = [])"
  by (auto simp: GetByName_def db_call_def Let_def split: list.splits if_splits)

lemma Create_failed:
  "Create v w = (Inl e, w1) \<Longrightarrow>
     vpcs w1 = vpcs w \<and> switch w1 = switch w \<and> tool_faults w1 = tool_faults w"
  by (auto simp: Create_def db_call_def Let_def split: list.splits if_splits)

lemma Create_ok:
  "Create v w = (Inr u, w1) \<Longrightarrow>
     vpcs w1 = vpcs w @ [v] \<and> ID v \<notin> ID ` set (vpcs w)
     \<and> (db_faults w = [] \<longrightarrow> db_faults w1 = [])"
  by (auto simp: Create_def db_call_def Let_def split: list.splits if_splits)

lemma Delete_vpcs:
  "vpcs (snd (Delete i u w)) = vpcs w
   \<or> vpcs (snd (Delete i u w)) = filter (\<lambda>v. \<not> (ID v = i \<and> UserID v = u)) (vpcs w)"
  by (auto simp: Delete_def db_call_def Let_def split: list.splits if_splits)

lemma Delete_healthy_vpcs:
  "db_faults w = [] \<Longrightarrow>
   vpcs (snd (Delete i u w)) = filter (\<lambda>v. \<not> (ID v = i \<and> UserID v = u)) (vpcs w)"
  by (auto simp: Delete_def db_call_def Let_def list_ex_iff filter_id_conv)

lemma filter_fresh:
  "ID v \<notin> ID ` set vs \<Longrightarrow>
   filter (\<lambda>x. \<not> (ID x = ID v \<and> UserID x = UserID v)) (vs @ [v]) = vs"
  by (force simp: filter_id_conv image_iff)

lemma CreateVPC_db_error:
  assumes "CreateVPC pa u req i now w = (Inl (DB_ERROR e), w')"
  shows "vpcs w' = vpcs w \<and> switch w' = switch w \<and> tool_faults w' = tool_faults w"
proof -
  obtain r1 w1 where g: "GetByName (new_Name req) u w = (r1, w1)" by fastforce
  note g1 = GetByName_world [OF g]
  from assms g obtain vpc where c: "Create vpc w1 = (Inl e, w')"
    by (auto simp: CreateVPC_def Let_def split: option.splits sum.splits prod.splits)
  from Create_failed [OF c] g1 show ?thesis by simp
qed

lemma CreateVPC_ovs_error:
  assumes "CreateVPC pa u req i now w = (Inl (OVS_ERROR e), w')"
  shows "\<exists>vpc w3. ID vpc = i \<and> UserID vpc = u \<and> ID vpc \<notin> ID ` set (vpcs w)
           \<and> vpcs w3 = vpcs w @ [vpc] \<and> (db_faults w = [] \<longrightarrow> db_faults w3 = [])
           \<and> w' = snd (Delete i u w3)"
proof -
  obtain r1 w1 where g: "GetByName (new_Name req) u w = (r1, w1)" by fastforce
  note g1 = GetByName_world [OF g]
  define vpc where "vpc = \<lparr>ID = i, Name = new_Name req, CIDRBlock = new_CIDRBlock req,
                           Description = new_Description req, UserID = u,
                           CreatedAt = now, UpdatedAt = now\<rparr>"
  from assms g obtain w2 bn w3 x where c: "Create vpc w1 = (Inr x, w2)"
    and b: "CreateBridge pa bn (new_CIDRBlock req) w2 = (Inl e, w3)"
    and d: "w' = snd (Delete i u w3)"
    by (auto simp: CreateVPC_def Let_def vpc_def split: option.splits sum.splits prod.splits)
  from CreateBridge_store [OF b] have s: "vpcs w3 = vpcs w2" "db_faults w3 = db_faults w2"
    by (simp_all add: same_store_def)
  from Create_ok [OF c] g1 s d
  have "ID vpc = i \<and> UserID vpc = u \<and> ID vpc \<notin> ID ` set (vpcs w)
           \<and> vpcs w3 = vpcs w @ [vpc] \<and> (db_faults w = [] \<longrightarrow> db_faults w3 = [])
           \<and> w' = snd (Delete i u w3)"
    by (simp add: vpc_def)
  then show ?thesis by blast
qed

text \<open>
  Claim C3, as amended. \<open>CreateVPC\<close> writes the record first and creates the bridge
  afterwards. When writing the record fails, nothing is stored and no command has been
  sent to the switch. When creating the bridge fails, the service deletes the record it
  wrote, and with a store that executes its statements the table is afterwards what it
  was before the action.
\<close>

theorem CreateVPC_record_then_bridge:
  "(CreateVPC pa u req i now w = (Inl (DB_ERROR e), w') \<longrightarrow>
      vpcs w' = vpcs w \<and> switch w' = switch w \<and> tool_faults w' = tool_faults w) \<and>
   (CreateVPC pa u req i now w = (Inl (OVS_ERROR e'), w') \<and> db_faults w = [] \<longrightarrow>
      vpcs w' = vpcs w)"
proof (rule conjI; rule impI)
  assume "CreateVPC pa u req i now w = (Inl (DB_ERROR e), w')"
  then show "vpcs w' = vpcs w \<and> switch w' = switch w \<and> tool_faults w' = tool_faults w"
    by (rule CreateVPC_db_error)
next
  assume a: "CreateVPC pa u req i now w = (Inl (OVS_ERROR e'), w') \<and> db_faults w = []"
  then obtain vpc w3 where v: "ID vpc = i" "UserID vpc = u" "ID vpc \<notin> ID ` set (vpcs w)"
      "vpcs w3 = vpcs w @ [vpc]" "db_faults w3 = []" "w' = snd (Delete i u w3)"
    using CreateVPC_ovs_error by blast
  from v(5) have "vpcs (snd (Delete i u w3)) = filter (\<lambda>x. \<not> (ID x = i \<and> UserID x = u)) (vpcs w3)"
    by (rule Delete_healthy_vpcs)
  with v filter_fresh [of vpc "vpcs w"] show "vpcs w' = vpcs w" by simp
qed

lemmas example_defs = example_request_def example_id_def world_empty_def
  world_second_statement_fails_def world_third_statement_fails_def
  GetByName_def Create_def Delete_def db_call_def vpcBridgeName_def CreateBridge_def
  validateBridgeName_def

lemma example_validated: "validateCIDRBlock parseAddr4 (new_CIDRBlock example_request) = None"
  by (simp add: example_request_def validate_10_0_16)

lemma CreateVPC_second_statement_fails:
  "CreateVPC parseAddr4 ''u1'' example_request example_id 5 world_second_statement_fails
     = (Inl (DB_ERROR DBFailure), world_empty)"
  by (simp add: CreateVPC_def example_validated) (simp add: example_defs)

lemma CreateVPC_world_empty:
  "CreateVPC parseAddr4 ''u1'' example_request example_id 5 world_empty
     = (Inl (OVS_ERROR (InvalidBridgeName NameTooLong)), world_empty)"
  by (simp add: CreateVPC_def example_validated) (simp add: example_defs)

text \<open>
  The theorem at a store that fails the insert (nothing stored, the switch untouched)
  and at a store that works (the bridge is refused, the record is deleted again).
\<close>

theorem CreateVPC_record_then_bridge_witness:
  "CreateVPC parseAddr4 ''u1'' example_request example_id 5 world_second_statement_fails
     = (Inl (DB_ERROR DBFailure), world_empty) \<and>
   vpcs world_empty = vpcs world_second_statement_fails \<and>
   switch world_empty = switch world_second_statement_fails \<and>
   tool_faults world_empty = tool_faults world_second_statement_fails \<and>
   db_faults world_empty = [] \<and>
   fst (CreateVPC parseAddr4 ''u1'' example_request example_id 5 world_empty)
     = Inl (OVS_ERROR (InvalidBridgeName NameTooLong)) \<and>
   vpcs (snd (CreateVPC parseAddr4 ''u1'' example_request example_id 5 world_empty))
     = vpcs world_empty"
proof -
  note t1 = CreateVPC_record_then_bridge
    [where pa = parseAddr4 and u = "''u1''" and req = example_request and i = example_id
       and now = 5 and w = world_second_statement_fails and e = DBFailure and w' = world_empty
       and e' = "InvalidBridgeName NameTooLong"]
  note t2 = CreateVPC_record_then_bridge
    [where pa = parseAddr4 and u = "''u1''" and req = example_request and i = example_id
       and now = 5 and w = world_empty and e = DBFailure
       and w' = "snd (CreateVPC parseAddr4 ''u1'' example_request example_id 5 world_empty)"
       and e' = "InvalidBridgeName NameTooLong"]
  have d: "db_faults world_empty = []" by (simp add: world_empty_def)
  have f: "fst (CreateVPC parseAddr4 ''u1'' example_request example_id 5 world_empty)
     = Inl (OVS_ERROR (InvalidBridgeName NameTooLong))"
    by (simp add: CreateVPC_world_empty)
  then have c: "CreateVPC parseAddr4 ''u1'' example_request example_id 5 world_empty
     = (Inl (OVS_ERROR (InvalidBridgeName NameTooLong)),
        snd (CreateVPC parseAddr4 ''u1'' example_request example_id 5 world_empty))"
    by (simp add: prod_eq_iff)
  from t1 CreateVPC_second_statement_fails
  have a: "vpcs world_empty = vpcs world_second_statement_fails \<and>
   switch world_empty = switch world_second_statement_fails \<and>
   tool_faults world_empty = tool_faults world_second_statement_fails" by blast
  from t2 c d
  have b: "vpcs (snd (CreateVPC parseAddr4 ''u1'' example_request example_id 5 world_empty))
     = vpcs world_empty" by blast
  from a b d f CreateVPC_second_statement_fails show ?thesis by blast
qed

text \<open>
  Claim C3 as stated fails: the record is written before the bridge is tried, and the
  rollback is only attempted. Here the store fails the rollback's \<open>DELETE\<close>: the action
  has failed, no bridge exists, and the record is in the table.
\<close>

theorem CreateVPC_counterexample:
  "fst (CreateVPC parseAddr4 ''u1'' example_request example_id 5 world_third_statement_fails)
     = Inl (OVS_ERROR (InvalidBridgeName NameTooLong)) \<and>
   vpcs world_third_statement_fails = [] \<and>
   vpcs (snd (CreateVPC parseAddr4 ''u1'' example_request example_id 5
                world_third_statement_fails))
     = [\<lparr>ID = example_id, Name = ''staging'', CIDRBlock = ''10.0.0.0/16'', Description = None,
         UserID = ''u1'', CreatedAt = 5, UpdatedAt = 5\<rparr>] \<and>
   switch (snd (CreateVPC parseAddr4 ''u1'' example_request example_id 5
                  world_third_statement_fails)) = []"
  by (simp add: CreateVPC_def example_validated) (simp add: example_defs)

section \<open>Deleting a VPC\<close>

lemma remove_bridge_absent: "\<not> has_bridge sw n \<Longrightarrow> remove_bridge sw n = sw"
  by (force simp: has_bridge_iff remove_bridge_def filter_id_conv image_iff)

lemma remove_bridge_gone [simp]: "\<not> has_bridge (remove_bridge sw n) n"
  by (auto simp: has_bridge_iff remove_bridge_def)

lemma DeleteBridge_healthy:
  assumes "tool_faults w = []"
  shows "DeleteBridge n w = (Inr (), w\<lparr>switch := remove_bridge (switch w) n\<rparr>)"
proof (cases "has_bridge (switch w) n")
  case True
  with assms show ?thesis
    by (simp add: DeleteBridge_def BridgeExists_healthy runCommand_healthy tool_def)
next
  case False
  with assms show ?thesis
    by (simp add: DeleteBridge_def BridgeExists_healthy remove_bridge_absent)
qed

lemma GetByID_world:
  "GetByID i u w = (r, w1) \<Longrightarrow>
     vpcs w1 = vpcs w \<and> subnets w1 = subnets w \<and> switch w1 = switch w
     \<and> tool_faults w1 = tool_faults w \<and> (db_faults w = [] \<longrightarrow> db_faults w1 = [])"
  by (auto simp: GetByID_def db_call_def Let_def split: list.splits if_splits)

lemma GetByID_found:
  "GetByID i u w = (Inr (Some v), w1) \<Longrightarrow> list_ex (\<lambda>v. ID v = i \<and> UserID v = u) (vpcs w)"
  by (auto simp: GetByID_def db_call_def Let_def list_ex_iff find_Some_iff
      split: list.splits if_splits)

lemma Delete_world:
  "switch (snd (Delete i u w)) = switch w \<and> tool_faults (snd (Delete i u w)) = tool_faults w"
  by (auto simp: Delete_def db_call_def Let_def split: list.splits if_splits)

lemma Delete_healthy:
  "db_faults w = [] \<Longrightarrow> list_ex (\<lambda>v. ID v = i \<and> UserID v = u) (vpcs w) \<Longrightarrow>
   Delete i u w = (Inr (), w\<lparr>vpcs := filter (\<lambda>v. \<not> (ID v = i \<and> UserID v = u)) (vpcs w),
                            subnets := filter (\<lambda>s. Subnet_VPCID s \<noteq> i) (subnets w)\<rparr>)"
  by (simp add: Delete_def db_call_def)

text \<open>
  Claim C4, as amended. \<open>DeleteVPC\<close> does not look at the subnets or ports of the VPC.
  Once the record is found it removes the bridge first, whatever ports the bridge has:
  with the tools working the bridge is gone afterwards, whether or not the record's
  deletion then succeeds. With the store working as well the record is deleted next, and
  the store removes the VPC's subnets with it.
\<close>

theorem DeleteVPC_removes_bridge_first:
  "(tool_faults w = [] \<and> fst (GetByID i u w) = Inr (Some v) \<and> vpcBridgeName i = Some bn \<longrightarrow>
      switch (snd (DeleteVPC i u w)) = remove_bridge (switch w) bn \<and>
      \<not> has_bridge (switch (snd (DeleteVPC i u w))) bn) \<and>
   (tool_faults w = [] \<and> db_faults w = [] \<and> fst (GetByID i u w) = Inr (Some v)
      \<and> vpcBridgeName i = Some bn \<longrightarrow>
      DeleteVPC i u w =
        (Inr (), w\<lparr>switch := remove_bridge (switch w) bn,
                   vpcs := filter (\<lambda>v. \<not> (ID v = i \<and> UserID v = u)) (vpcs w),
                   subnets := filter (\<lambda>s. Subnet_VPCID s \<noteq> i) (subnets w)\<rparr>))"
proof (rule conjI; rule impI)
  assume a: "tool_faults w = [] \<and> fst (GetByID i u w) = Inr (Some v) \<and> vpcBridgeName i = Some bn"
  obtain w1 where g: "GetByID i u w = (Inr (Some v), w1)"
    using a by (metis prod.collapse)
  note g1 = GetByID_world [OF g]
  from a g1 have d: "DeleteBridge bn w1 = (Inr (), w1\<lparr>switch := remove_bridge (switch w1) bn\<rparr>)"
    by (simp add: DeleteBridge_healthy)
  have "snd (DeleteVPC i u w) = snd (Delete i u (w1\<lparr>switch := remove_bridge (switch w1) bn\<rparr>))"
    using a g d by (simp add: DeleteVPC_def split: prod.splits sum.splits)
  then have "switch (snd (DeleteVPC i u w)) = remove_bridge (switch w) bn"
    using g1 by (simp add: Delete_world)
  then show "switch (snd (DeleteVPC i u w)) = remove_bridge (switch w) bn \<and>
      \<not> has_bridge (switch (snd (DeleteVPC i u w))) bn"
    by simp
next
  assume a: "tool_faults w = [] \<and> db_faults w = [] \<and> fst (GetByID i u w) = Inr (Some v)
      \<and> vpcBridgeName i = Some bn"
  then have "GetByID i u w = (Inr (Some v), w)"
    by (auto simp: GetByID_def db_call_def)
  moreover from this have "list_ex (\<lambda>v. ID v = i \<and> UserID v = u) (vpcs w)"
    by (rule GetByID_found)
  ultimately show "DeleteVPC i u w =
        (Inr (), w\<lparr>switch := remove_bridge (switch w) bn,
                   vpcs := filter (\<lambda>v. \<not> (ID v = i \<and> UserID v = u)) (vpcs w),
                   subnets := filter (\<lambda>s. Subnet_VPCID s \<noteq> i) (subnets w)\<rparr>)"
    using a by (simp add: DeleteVPC_def DeleteBridge_healthy Delete_healthy)
qed

text \<open>
  Claim C4 as stated fails: the VPC \<open>prod\<close> still has a subnet and its bridge still has
  the port \<open>tap0\<close>, and \<open>DeleteVPC\<close> succeeds and leaves no bridge (and no record or
  subnet).
\<close>

theorem DeleteVPC_counterexample:
  "subnets world_prod_in_use = [prod_subnet] \<and> Subnet_VPCID prod_subnet = ID prod_vpc \<and>
   map_of (switch world_prod_in_use) ''gcp-vpc-0a1b2c3d''
     = Some (new_bridge\<lparr>br_ports := [(''tap0'', False)], br_up := True\<rparr>) \<and>
   DeleteVPC (ID prod_vpc) ''u1'' world_prod_in_use = (Inr (), world_empty)"
  by (simp add: world_prod_in_use_def world_empty_def prod_vpc_def prod_subnet_def new_bridge_def
      DeleteVPC_def GetByID_def db_call_def vpcBridgeName_def DeleteBridge_def BridgeExists_def
      runCommand_def tool_def has_bridge_def remove_bridge_def Delete_def ExitCode_def)

end
